theory Spec2Isabelle
  imports Complex_Main "HOL-Library.Log_Nat"
begin

section \<open>Python floats\<close>

text \<open>
  Both calculators take their operands through \<^verbatim>\<open>type=float\<close>, so every value they
  compute with is a Python float: an IEEE-754 binary64 number. A finite float is
  \<open>Finite s m e\<close>, the number \<open>(-1)\<^sup>s * m * 2\<^sup>e\<close> with the sign bit \<open>s\<close> (True: negative).
  The doubles are the values with \<open>0 \<le> m < 2\<^sup>5\<^sup>3\<close> and \<open>-1074 \<le> e \<le> 971\<close>, written with the
  largest significand that fits (\<open>2\<^sup>5\<^sup>2 \<le> m\<close>) or, below the normal range, with \<open>e = -1074\<close>.
  The two zeros are \<open>Finite False 0 (-1074)\<close> and \<open>Finite True 0 (-1074)\<close>. Python shows one
  NaN only.
\<close>

datatype pyfloat = Finite bool int int | Infinity bool | NaN

fun is_double :: "pyfloat \<Rightarrow> bool" where
  "is_double (Finite s m e) =
     (0 \<le> m \<and> m < 2 ^ 53 \<and> - 1074 \<le> e \<and> e \<le> 971 \<and> (2 ^ 52 \<le> m \<or> e = - 1074))"
| "is_double (Infinity s) = True"
| "is_double NaN = True"

text \<open>The magnitude and the signed value of a finite float (0 for the others).\<close>

fun mag :: "pyfloat \<Rightarrow> rat" where
  "mag (Finite s m e) = of_int m * 2 powi e"
| "mag (Infinity s) = 0"
| "mag NaN = 0"

fun valof :: "pyfloat \<Rightarrow> rat" where
  "valof (Finite s m e) = (if s then - (of_int m * 2 powi e) else of_int m * 2 powi e)"
| "valof (Infinity s) = 0"
| "valof NaN = 0"

text \<open>Rounding a rational to the nearest integer, ties to the even one.\<close>

definition rne :: "rat \<Rightarrow> int" where
  "rne x = (let f = \<lfloor>x\<rfloor>; r = x - of_int f
            in if r < 1 / 2 then f else if 1 / 2 < r then f + 1
               else if even f then f else f + 1)"

text \<open>\<open>ilog2 q\<close> is the binary exponent of a positive rational: \<open>2\<^sup>k \<le> q < 2\<^sup>k\<^sup>+\<^sup>1\<close>.\<close>

definition ilog2 :: "rat \<Rightarrow> int" where
  "ilog2 q = (let k = bitlen (fst (quotient_of q)) - bitlen (snd (quotient_of q))
              in if 2 powi k \<le> q then k else k - 1)"

text \<open>
  The double nearest to the magnitude \<open>q \<ge> 0\<close>, with sign \<open>s\<close>: round to nearest, ties to
  even, 53 bits of precision, gradual underflow, overflow to infinity.
\<close>

definition round_mag :: "bool \<Rightarrow> rat \<Rightarrow> pyfloat" where
  "round_mag s q =
     (if q = 0 then Finite s 0 (- 1074)
      else let e = max (ilog2 q - 52) (- 1074);
               m = rne (q / 2 powi e);
               m' = (if m = 2 ^ 53 then 2 ^ 52 else m);
               e' = (if m = 2 ^ 53 then e + 1 else e)
           in if 971 < e' then Infinity s else Finite s m' e')"

text \<open>The float that \<^verbatim>\<open>float("0")\<close> and \<^verbatim>\<open>float("1")\<close> give, and \<^verbatim>\<open>-0.0\<close>.\<close>

definition float_zero :: pyfloat where
  "float_zero = Finite False 0 (- 1074)"

definition float_neg_zero :: pyfloat where
  "float_neg_zero = Finite True 0 (- 1074)"

definition float_one :: pyfloat where
  "float_one = Finite False (2 ^ 52) (- 52)"

text \<open>
  The float nearest to a rational: what \<^verbatim>\<open>type=float\<close> makes of an operand written as a
  decimal numeral of that value (\<^verbatim>\<open>2\<close>, \<^verbatim>\<open>2.5\<close>, \<^verbatim>\<open>1e-3\<close>).
\<close>

definition float_of_rat :: "rat \<Rightarrow> pyfloat" where
  "float_of_rat q = round_mag (q < 0) \<bar>q\<bar>"

text \<open>\<^verbatim>\<open>a + b\<close> on floats.\<close>

fun float_add :: "pyfloat \<Rightarrow> pyfloat \<Rightarrow> pyfloat" where
  "float_add NaN b = NaN"
| "float_add a NaN = NaN"
| "float_add (Infinity s) (Infinity t) = (if s = t then Infinity s else NaN)"
| "float_add (Infinity s) (Finite t n f) = Infinity s"
| "float_add (Finite s m e) (Infinity t) = Infinity t"
| "float_add (Finite s m e) (Finite t n f) =
     (let r = valof (Finite s m e) + valof (Finite t n f)
      in if r = 0 then Finite (s \<and> t) 0 (- 1074) else round_mag (r < 0) \<bar>r\<bar>)"

fun float_negate :: "pyfloat \<Rightarrow> pyfloat" where
  "float_negate (Finite s m e) = Finite (\<not> s) m e"
| "float_negate (Infinity s) = Infinity (\<not> s)"
| "float_negate NaN = NaN"

text \<open>\<^verbatim>\<open>a - b\<close> on floats: IEEE subtraction is addition of the negated operand.\<close>

definition float_sub :: "pyfloat \<Rightarrow> pyfloat \<Rightarrow> pyfloat" where
  "float_sub a b = float_add a (float_negate b)"

text \<open>\<^verbatim>\<open>a * b\<close> on floats.\<close>

fun float_mul :: "pyfloat \<Rightarrow> pyfloat \<Rightarrow> pyfloat" where
  "float_mul NaN b = NaN"
| "float_mul a NaN = NaN"
| "float_mul (Infinity s) (Infinity t) = Infinity (s \<noteq> t)"
| "float_mul (Infinity s) (Finite t n f) = (if n = 0 then NaN else Infinity (s \<noteq> t))"
| "float_mul (Finite s m e) (Infinity t) = (if m = 0 then NaN else Infinity (s \<noteq> t))"
| "float_mul (Finite s m e) (Finite t n f) =
     round_mag (s \<noteq> t) (mag (Finite s m e) * mag (Finite t n f))"

text \<open>The IEEE quotient, which the hardware computes once Python has let the divisor through.\<close>

fun ieee_div :: "pyfloat \<Rightarrow> pyfloat \<Rightarrow> pyfloat" where
  "ieee_div NaN b = NaN"
| "ieee_div a NaN = NaN"
| "ieee_div (Infinity s) (Infinity t) = NaN"
| "ieee_div (Infinity s) (Finite t n f) = Infinity (s \<noteq> t)"
| "ieee_div (Finite s m e) (Infinity t) = Finite (s \<noteq> t) 0 (- 1074)"
| "ieee_div (Finite s m e) (Finite t n f) =
     (if n = 0 then (if m = 0 then NaN else Infinity (s \<noteq> t))
      else round_mag (s \<noteq> t) (mag (Finite s m e) / mag (Finite t n f)))"

text \<open>\<^verbatim>\<open>a == b\<close> on floats: NaN equals nothing, the two zeros are equal.\<close>

fun float_eq :: "pyfloat \<Rightarrow> pyfloat \<Rightarrow> bool" where
  "float_eq (Finite s m e) (Finite t n f) = (valof (Finite s m e) = valof (Finite t n f))"
| "float_eq (Infinity s) (Infinity t) = (s = t)"
| "float_eq a b = False"

text \<open>\<^verbatim>\<open>b == k\<close> for a float \<open>b\<close> and an int \<open>k\<close>: Python compares the exact values.\<close>

fun float_eq_int :: "pyfloat \<Rightarrow> int \<Rightarrow> bool" where
  "float_eq_int (Finite s m e) k = (valof (Finite s m e) = of_int k)"
| "float_eq_int a k = False"

datatype py_exc = ZeroDivisionError | OverflowError | ValueError | UnboundLocalError
  | SystemExit int

text \<open>
  \<^verbatim>\<open>a / b\<close> on floats, which is also \<^verbatim>\<open>operator.truediv(a, b)\<close>: CPython tests
  \<^verbatim>\<open>b == 0.0\<close> and raises before it divides.
\<close>

definition float_truediv :: "pyfloat \<Rightarrow> pyfloat \<Rightarrow> py_exc + pyfloat" where
  "float_truediv a b = (if float_eq b float_zero then Inl ZeroDivisionError else Inr (ieee_div a b))"

text \<open>\<^verbatim>\<open>x.is_integer()\<close>: finite, and equal to its floor.\<close>

fun float_is_integer :: "pyfloat \<Rightarrow> bool" where
  "float_is_integer (Finite s m e) = (of_int \<lfloor>valof (Finite s m e)\<rfloor> = valof (Finite s m e))"
| "float_is_integer a = False"

text \<open>\<^verbatim>\<open>int(x)\<close>: truncation towards zero; infinities and NaN raise.\<close>

fun float_int :: "pyfloat \<Rightarrow> py_exc + int" where
  "float_int (Finite s m e) = Inr (if s then - \<lfloor>mag (Finite s m e)\<rfloor> else \<lfloor>mag (Finite s m e)\<rfloor>)"
| "float_int (Infinity s) = Inl OverflowError"
| "float_int NaN = Inl ValueError"

section \<open>Python's text for numbers\<close>

text \<open>\<^verbatim>\<open>str(n)\<close> for an int: the decimal digits, with a minus sign when negative.\<close>

definition digit_char :: "int \<Rightarrow> char" where
  "digit_char d =
     (if d = 0 then CHR ''0'' else if d = 1 then CHR ''1'' else if d = 2 then CHR ''2''
      else if d = 3 then CHR ''3'' else if d = 4 then CHR ''4'' else if d = 5 then CHR ''5''
      else if d = 6 then CHR ''6'' else if d = 7 then CHR ''7'' else if d = 8 then CHR ''8''
      else CHR ''9'')"

function digits :: "int \<Rightarrow> string" where
  "digits n = (if n < 10 then [digit_char n] else digits (n div 10) @ [digit_char (n mod 10)])"
  by pat_completeness auto
termination
  by (relation "measure nat") auto

declare digits.simps [simp del]

definition int_str :: "int \<Rightarrow> string" where
  "int_str n = (if n < 0 then CHR ''-'' # digits (- n) else digits n)"

text \<open>
  \<^verbatim>\<open>repr(x)\<close> for a float, which \<^verbatim>\<open>str(x)\<close>, \<^verbatim>\<open>print(x)\<close> and an f-string use too:
  the shortest string of decimal digits that reads back as \<open>x\<close>, and of those the one nearest
  to \<open>x\<close>. \<open>dec_exp q\<close> is the decimal exponent of a positive rational,
  \<open>10\<^sup>k\<^sup>-\<^sup>1 \<le> q < 10\<^sup>k\<close>.
\<close>

definition dec_exp :: "rat \<Rightarrow> int" where
  "dec_exp q =
     (if 1 \<le> q then int (length (digits \<lfloor>q\<rfloor>))
      else 1 - int (length (digits (\<lceil>1 / q\<rceil> - 1))))"

text \<open>Whether the decimal \<open>c\<close> reads back as the float of magnitude \<open>q\<close>.\<close>

definition reads_back :: "rat \<Rightarrow> rat \<Rightarrow> bool" where
  "reads_back q c = (case round_mag False c of Finite s m e \<Rightarrow> mag (Finite s m e) = q | _ \<Rightarrow> False)"

text \<open>
  The \<open>n\<close>-digit decimals on both sides of \<open>q\<close> are \<open>lo * 10\<^sup>k\<^sup>-\<^sup>n\<close> and \<open>(lo + 1) * 10\<^sup>k\<^sup>-\<^sup>n\<close>;
  the result is the digits \<open>d\<close> and the exponent \<open>x\<close> of the one that reads back (\<open>d * 10\<^sup>x\<close>),
  the nearer one when both do, the even one on a tie.
\<close>

definition try_digits :: "rat \<Rightarrow> int \<Rightarrow> int \<Rightarrow> (int \<times> int) option" where
  "try_digits q k n =
     (let x = k - n;
          lo = \<lfloor>q / 10 powi x\<rfloor>;
          hi = lo + 1;
          dl = q - of_int lo * 10 powi x;
          dh = of_int hi * 10 powi x - q;
          ok_lo = reads_back q (of_int lo * 10 powi x);
          ok_hi = reads_back q (of_int hi * 10 powi x)
      in if ok_lo \<and> ok_hi then
           (if dl < dh then Some (lo, x) else if dh < dl then Some (hi, x)
            else if even lo then Some (lo, x) else Some (hi, x))
         else if ok_lo then Some (lo, x)
         else if ok_hi then Some (hi, x)
         else None)"

fun shortest :: "rat \<Rightarrow> int \<Rightarrow> int list \<Rightarrow> int \<times> int" where
  "shortest q k [] = (rne (q / 10 powi (k - 17)), k - 17)"
| "shortest q k (n # ns) = (case try_digits q k n of Some r \<Rightarrow> r | None \<Rightarrow> shortest q k ns)"

definition strip_zeros :: "string \<Rightarrow> string" where
  "strip_zeros ds = rev (dropWhile (\<lambda>c. c = CHR ''0'') (rev ds))"

text \<open>
  The layout of \<^verbatim>\<open>repr\<close>: the digits \<open>ds\<close> with the decimal point after the first
  \<open>decpt\<close> of them; exponent notation when \<open>decpt \<le> -4\<close> or \<open>decpt > 16\<close>, and otherwise
  \<^verbatim>\<open>.0\<close> is added when no digit follows the point.
\<close>

definition exp_str :: "int \<Rightarrow> string" where
  "exp_str x =
     (let a = \<bar>x\<bar>; ds = (if a < 10 then CHR ''0'' # digits a else digits a)
      in (if x < 0 then CHR ''-'' else CHR ''+'') # ds)"

definition layout :: "string \<Rightarrow> int \<Rightarrow> string" where
  "layout ds decpt =
     (if decpt \<le> - 4 \<or> 16 < decpt then
        (if length ds = 1 then ds else take 1 ds @ ''.'' @ drop 1 ds)
        @ ''e'' @ exp_str (decpt - 1)
      else if decpt \<le> 0 then ''0.'' @ replicate (nat (- decpt)) CHR ''0'' @ ds
      else if decpt < int (length ds) then take (nat decpt) ds @ ''.'' @ drop (nat decpt) ds
      else ds @ replicate (nat (decpt - int (length ds))) CHR ''0'' @ ''.0'')"

fun float_repr :: "pyfloat \<Rightarrow> string" where
  "float_repr NaN = ''nan''"
| "float_repr (Infinity s) = (if s then ''-inf'' else ''inf'')"
| "float_repr (Finite s m e) =
     (if s then ''-'' else []) @
     (if mag (Finite s m e) = 0 then ''0.0''
      else let q = mag (Finite s m e);
               (d, x) = shortest q (dec_exp q) [1 .. 17];
               ds = digits d
           in layout (strip_zeros ds) (int (length ds) + x))"

section \<open>What a run of a program leaves behind\<close>

text \<open>
  A run is the lines printed on standard output, the lines printed on standard error (one
  entry for each call of \<^verbatim>\<open>print\<close>) and the exit status of the process. An exception that
  leaves \<^verbatim>\<open>main\<close> is the \<open>Inl\<close> of a sum; \<^verbatim>\<open>argparse\<close> leaves through \<^verbatim>\<open>SystemExit(2)\<close>
  when it rejects the command line.
\<close>

record run =
  out :: "string list"
  err :: "string list"
  status :: int

section \<open>test\_folder/calculator/calculator.py\<close>

text \<open>The variable \<^verbatim>\<open>result\<close> of \<^verbatim>\<open>main\<close> holds a float or the string \<^verbatim>\<open>divide\<close> returns.\<close>

datatype pyval = PFloat pyfloat | PStr string

definition add :: "pyfloat \<Rightarrow> pyfloat \<Rightarrow> pyfloat" where
  "add a b = float_add a b"

definition subtract :: "pyfloat \<Rightarrow> pyfloat \<Rightarrow> pyfloat" where
  "subtract a b = float_sub a b"

definition multiply :: "pyfloat \<Rightarrow> pyfloat \<Rightarrow> pyfloat" where
  "multiply a b = float_mul a b"

definition divide_py :: "pyfloat \<Rightarrow> pyfloat \<Rightarrow> py_exc + pyval" where
  "divide_py a b =
     (if float_eq_int b 0 then Inr (PStr ''Error: Division by zero'')
      else case float_truediv a b of Inl ex \<Rightarrow> Inl ex | Inr r \<Rightarrow> Inr (PFloat r))"

text \<open>The \<^verbatim>\<open>choices\<close> of the positional argument \<^verbatim>\<open>operation\<close>.\<close>

definition choices :: "string list" where
  "choices = [''add'', ''subtract'', ''multiply'', ''divide'']"

text \<open>
  The \<^verbatim>\<open>if\<close>/\<^verbatim>\<open>elif\<close> chain of \<^verbatim>\<open>main\<close>, which binds \<^verbatim>\<open>result\<close>. It has no
  \<^verbatim>\<open>else\<close>: with any other operation the \<^verbatim>\<open>print\<close> after it would read an unbound name.
\<close>

definition folder_result :: "string \<Rightarrow> pyfloat \<Rightarrow> pyfloat \<Rightarrow> py_exc + pyval" where
  "folder_result operation a b =
     (if operation = ''add'' then Inr (PFloat (add a b))
      else if operation = ''subtract'' then Inr (PFloat (subtract a b))
      else if operation = ''multiply'' then Inr (PFloat (multiply a b))
      else if operation = ''divide'' then divide_py a b
      else Inl UnboundLocalError)"

text \<open>\<^verbatim>\<open>{result}\<close> in the f-string.\<close>

fun py_str :: "pyval \<Rightarrow> string" where
  "py_str (PFloat x) = float_repr x"
| "py_str (PStr s) = s"

text \<open>
  \<^verbatim>\<open>main\<close>, from the parsed arguments on. It returns nothing and the script ends after it,
  so the exit status is 0.
\<close>

definition main_folder :: "string \<Rightarrow> pyfloat \<Rightarrow> pyfloat \<Rightarrow> py_exc + run" where
  "main_folder operation a b =
     (if operation \<notin> set choices then Inl (SystemExit 2)
      else case folder_result operation a b of
             Inl ex \<Rightarrow> Inl ex
           | Inr result \<Rightarrow> Inr \<lparr>out = [''Result: '' @ py_str result], err = [], status = 0\<rparr>)"

section \<open>test\_repo/calculator/calculator.py\<close>

text \<open>The functions of the module \<^verbatim>\<open>operator\<close> that \<^verbatim>\<open>make_parser\<close> registers, on floats.\<close>

definition operator_add :: "pyfloat \<Rightarrow> pyfloat \<Rightarrow> py_exc + pyfloat" where
  "operator_add a b = Inr (float_add a b)"

definition operator_sub :: "pyfloat \<Rightarrow> pyfloat \<Rightarrow> py_exc + pyfloat" where
  "operator_sub a b = Inr (float_sub a b)"

definition operator_mul :: "pyfloat \<Rightarrow> pyfloat \<Rightarrow> py_exc + pyfloat" where
  "operator_mul a b = Inr (float_mul a b)"

definition operator_truediv :: "pyfloat \<Rightarrow> pyfloat \<Rightarrow> py_exc + pyfloat" where
  "operator_truediv a b = float_truediv a b"

text \<open>The list \<^verbatim>\<open>ops\<close> of \<^verbatim>\<open>make_parser\<close>: subcommand, function, help text.\<close>

definition ops :: "(string \<times> (pyfloat \<Rightarrow> pyfloat \<Rightarrow> py_exc + pyfloat) \<times> string) list" where
  "ops =
     [(''add'', operator_add, ''Add two numbers (a + b)''),
      (''sub'', operator_sub, ''Subtract b from a (a - b)''),
      (''mul'', operator_mul, ''Multiply two numbers (a * b)''),
      (''div'', operator_truediv, ''Divide a by b (a / b)'')]"

text \<open>
  The namespace \<^verbatim>\<open>parse_args\<close> returns: the subcommand chosen, the two operands and the
  \<^verbatim>\<open>func\<close> that \<^verbatim>\<open>set_defaults\<close> gave that subcommand's parser.
\<close>

record args =
  operation :: string
  arg_a :: pyfloat
  arg_b :: pyfloat
  func :: "pyfloat \<Rightarrow> pyfloat \<Rightarrow> py_exc + pyfloat"

definition parse_args :: "string \<Rightarrow> pyfloat \<Rightarrow> pyfloat \<Rightarrow> py_exc + args" where
  "parse_args name a b =
     (case map_of ops name of
        None \<Rightarrow> Inl (SystemExit 2)
      | Some (f, help_text) \<Rightarrow> Inr \<lparr>operation = name, arg_a = a, arg_b = b, func = f\<rparr>)"

text \<open>The value \<^verbatim>\<open>args.func(args.a, args.b)\<close> that \<^verbatim>\<open>main\<close> computes in its \<^verbatim>\<open>try\<close>.\<close>

definition repo_result :: "string \<Rightarrow> pyfloat \<Rightarrow> pyfloat \<Rightarrow> py_exc + pyfloat" where
  "repo_result name a b =
     (case parse_args name a b of
        Inl ex \<Rightarrow> Inl ex
      | Inr ns \<Rightarrow> func ns (arg_a ns) (arg_b ns))"

text \<open>
  The printing of \<^verbatim>\<open>main\<close>. The result of the four functions is a float, so
  \<^verbatim>\<open>isinstance(result, float)\<close> holds and \<^verbatim>\<open>is_integer\<close> decides.
\<close>

definition print_result :: "pyfloat \<Rightarrow> py_exc + run" where
  "print_result result =
     (if float_is_integer result then
        (case float_int result of
           Inl ex \<Rightarrow> Inl ex
         | Inr n \<Rightarrow> Inr \<lparr>out = [int_str n], err = [], status = 0\<rparr>)
      else Inr \<lparr>out = [float_repr result], err = [], status = 0\<rparr>)"

text \<open>
  \<^verbatim>\<open>main\<close>, from the command line split into the subcommand and the two operands
  converted by \<^verbatim>\<open>type=float\<close>; the script exits with what \<^verbatim>\<open>main\<close> returns.
\<close>

definition main_repo :: "string \<Rightarrow> pyfloat \<Rightarrow> pyfloat \<Rightarrow> py_exc + run" where
  "main_repo name a b =
     (case parse_args name a b of
        Inl ex \<Rightarrow> Inl ex
      | Inr ns \<Rightarrow>
          (case func ns (arg_a ns) (arg_b ns) of
             Inl ZeroDivisionError \<Rightarrow>
               Inr \<lparr>out = [], err = [''Error: Division by zero is not allowed.''], status = 1\<rparr>
           | Inl ex \<Rightarrow> Inl ex
           | Inr result \<Rightarrow> print_result result))"

section \<open>Facts about the float operations\<close>

lemma float_eq_zero_iff: "float_eq b float_zero = float_eq_int b 0"
  by (cases b) (simp_all add: float_zero_def)

lemma float_eq_neg_zero: "float_eq float_neg_zero float_zero"
  by (simp add: float_neg_zero_def float_zero_def)

lemma float_eq_zero_zero: "float_eq float_zero float_zero"
  by (simp add: float_zero_def)

lemma float_eq_zero_finite: "float_eq (Finite s m e) float_zero = (m = 0)"
  by (simp add: float_zero_def)

lemma float_eq_refl: "a \<noteq> NaN \<Longrightarrow> float_eq a a"
  by (cases a) simp_all

lemma float_add_commute: "float_add a b = float_add b a"
  by (cases a; cases b) (auto simp: Let_def add.commute)

lemma float_mul_commute: "float_mul a b = float_mul b a"
proof (cases a; cases b)
  fix s m e t n f
  assume "a = Finite s m e" "b = Finite t n f"
  then show ?thesis
    by (cases s; cases t) (simp_all add: mult.commute)
qed auto

lemma float_int_of_integer: "float_is_integer r \<Longrightarrow> \<exists>n. float_int r = Inr n"
  by (cases r) simp_all

lemma bitlen_rat_bounds:
  assumes "0 < n"
  shows "(2::rat) powi (bitlen n - 1) \<le> of_int n" and "(of_int n :: rat) < 2 powi (bitlen n)"
proof -
  from assms have pos: "1 \<le> bitlen n"
    using bitlen_eq_zero_iff [of n] bitlen_nonneg [of n] by linarith
  from bitlen_bounds [OF assms]
  have lo: "2 ^ nat (bitlen n - 1) \<le> n" and hi: "n < 2 ^ nat (bitlen n)" by simp_all
  have "(of_int (2 ^ nat (bitlen n - 1)) :: rat) \<le> of_int n"
    using lo by (simp only: of_int_le_iff)
  then show "(2::rat) powi (bitlen n - 1) \<le> of_int n"
    using pos by (simp add: power_int_def)
  have "(of_int n :: rat) < of_int (2 ^ nat (bitlen n))"
    using hi by (simp only: of_int_less_iff)
  then show "(of_int n :: rat) < 2 powi (bitlen n)"
    using pos by (simp add: power_int_def)
qed

lemma ilog2_bounds:
  assumes "0 < q"
  shows "2 powi (ilog2 q) \<le> q" and "q < 2 powi (ilog2 q + 1)"
proof -
  obtain n d where nd: "quotient_of q = (n, d)" by force
  have d: "0 < d" using quotient_of_denom_pos [OF nd] .
  have q: "q = of_int n / of_int d" using quotient_of_div [OF nd] .
  have n: "0 < n" using assms d unfolding q by (simp add: zero_less_divide_iff)
  define k where "k = bitlen n - bitlen d"
  have dq: "(0::rat) < of_int d" using d by simp
  have up: "q < 2 powi (k + 1)"
  proof -
    have "of_int n < (2::rat) powi (bitlen n)" using bitlen_rat_bounds(2) [OF n] .
    also have "\<dots> = 2 powi (k + 1) * 2 powi (bitlen d - 1)"
      by (simp add: k_def flip: power_int_add)
    also have "\<dots> \<le> 2 powi (k + 1) * of_int d"
      using bitlen_rat_bounds(1) [OF d] by (intro mult_left_mono) simp_all
    finally show ?thesis using dq unfolding q by (simp add: pos_divide_less_eq)
  qed
  have low: "2 powi (k - 1) \<le> q"
  proof -
    have "(2::rat) powi (k - 1) * of_int d \<le> 2 powi (k - 1) * 2 powi (bitlen d)"
      using bitlen_rat_bounds(2) [OF d] by (intro mult_left_mono) simp_all
    also have "\<dots> = 2 powi (bitlen n - 1)"
      by (simp add: k_def flip: power_int_add)
    also have "\<dots> \<le> of_int n" using bitlen_rat_bounds(1) [OF n] .
    finally show ?thesis using dq unfolding q by (simp add: pos_le_divide_eq)
  qed
  have il: "ilog2 q = (if 2 powi k \<le> q then k else k - 1)"
    by (simp add: ilog2_def nd k_def Let_def)
  show "2 powi (ilog2 q) \<le> q" using low by (simp add: il)
  show "q < 2 powi (ilog2 q + 1)" using up by (auto simp: il not_le)
qed

lemma ilog2_unique:
  assumes "0 < q" "2 powi j \<le> q" "q < 2 powi (j + 1)"
  shows "ilog2 q = j"
proof -
  have a: "(2::rat) powi (ilog2 q) < 2 powi (j + 1)"
    using ilog2_bounds(1) [OF assms(1)] assms(3) by (rule le_less_trans)
  have b: "(2::rat) powi j < 2 powi (ilog2 q + 1)"
    using assms(2) ilog2_bounds(2) [OF assms(1)] by (rule le_less_trans)
  have "ilog2 q < j + 1"
  proof (rule ccontr)
    assume "\<not> ilog2 q < j + 1"
    then have "(2::rat) powi (j + 1) \<le> 2 powi (ilog2 q)"
      by (intro power_int_increasing) simp_all
    with a show False by simp
  qed
  moreover have "j < ilog2 q + 1"
  proof (rule ccontr)
    assume "\<not> j < ilog2 q + 1"
    then have "(2::rat) powi (ilog2 q + 1) \<le> 2 powi j"
      by (intro power_int_increasing) simp_all
    with b show False by simp
  qed
  ultimately show ?thesis by simp
qed

lemma ilog2_less:
  assumes "0 < q" "q < 2 powi j"
  shows "ilog2 q < j"
proof (rule ccontr)
  assume "\<not> ilog2 q < j"
  then have "(2::rat) powi j \<le> 2 powi (ilog2 q)"
    by (intro power_int_increasing) simp_all
  also have "\<dots> \<le> q" using ilog2_bounds(1) [OF assms(1)] .
  finally show False using assms(2) by simp
qed

lemma rne_of_int: "rne (of_int m) = m"
  by (simp add: rne_def)

lemma round_mag_exact:
  assumes "is_double (Finite s m e)"
  shows "round_mag t (mag (Finite s m e)) = Finite t m e"
proof (cases "m = 0")
  case True
  with assms show ?thesis by (simp add: round_mag_def)
next
  case False
  with assms have m: "0 < m" "m < 2 ^ 53" and e: "- 1074 \<le> e" "e \<le> 971"
    and form: "2 ^ 52 \<le> m \<or> e = - 1074" by simp_all
  let ?q = "of_int m * (2::rat) powi e"
  have q: "0 < ?q" using m by simp
  have ex: "max (ilog2 ?q - 52) (- 1074) = e"
  proof (cases "2 ^ 52 \<le> m")
    case True
    have "(2::rat) powi (e + 52) = 2 ^ 52 * 2 powi e"
      by (simp add: power_int_add)
    also have "\<dots> \<le> ?q"
    proof (intro mult_right_mono)
      have "(of_int (2 ^ 52) :: rat) \<le> of_int m" using True by (simp only: of_int_le_iff)
      then show "(2::rat) ^ 52 \<le> of_int m" by simp
    qed simp
    finally have lo: "(2::rat) powi (e + 52) \<le> ?q" .
    have "?q < 2 ^ 53 * 2 powi e"
    proof (intro mult_strict_right_mono)
      have "(of_int m :: rat) < of_int (2 ^ 53)" using m by (simp only: of_int_less_iff)
      then show "(of_int m :: rat) < 2 ^ 53" by simp
    qed simp
    also have "\<dots> = 2 powi (e + 52 + 1)"
      by (simp add: power_int_add)
    finally have hi: "?q < 2 powi (e + 52 + 1)" .
    have "ilog2 ?q = e + 52" using q lo hi by (rule ilog2_unique)
    then show ?thesis using e by simp
  next
    case False
    with form have e': "e = - 1074" by simp
    have "?q < 2 ^ 52 * 2 powi e"
    proof (intro mult_strict_right_mono)
      from False have "m < 2 ^ 52" by simp
      then have "(of_int m :: rat) < of_int (2 ^ 52)" by (simp only: of_int_less_iff)
      then show "(of_int m :: rat) < 2 ^ 52" by simp
    qed simp
    also have "\<dots> = 2 powi (e + 52)"
      by (simp add: power_int_add)
    finally have "ilog2 ?q < e + 52" using q by (intro ilog2_less)
    then show ?thesis using e' by simp
  qed
  have "rne (?q / 2 powi e) = m" by (simp add: rne_of_int)
  then show ?thesis
    using m e q ex by (simp add: round_mag_def Let_def)
qed

lemma round_mag_overflow:
  assumes "2 powi 1024 \<le> q"
  shows "round_mag s q = Infinity s"
proof -
  have q: "0 < q"
    using assms by (rule less_le_trans [rotated]) simp
  have "(2::rat) powi 1024 < 2 powi (ilog2 q + 1)"
    using assms ilog2_bounds(2) [OF q] by (rule le_less_trans)
  have "1024 < ilog2 q + 1"
  proof (rule ccontr)
    assume "\<not> 1024 < ilog2 q + 1"
    then have "(2::rat) powi (ilog2 q + 1) \<le> 2 powi 1024"
      by (intro power_int_increasing) simp_all
    with \<open>(2::rat) powi 1024 < 2 powi (ilog2 q + 1)\<close> show False by simp
  qed
  then have "1023 < ilog2 q" by simp
  then show ?thesis
    using q by (simp add: round_mag_def Let_def)
qed

lemma mag_float_one: "mag float_one = 1"
  by (simp add: float_one_def power_int_minus)

lemma float_mul_one:
  assumes "is_double a"
  shows "float_mul a float_one = a"
proof (cases a)
  case (Finite s m e)
  have "float_mul a float_one = round_mag s (mag (Finite s m e) * mag float_one)"
    by (simp add: Finite float_one_def)
  also have "\<dots> = Finite s m e"
    using assms round_mag_exact [of s m e s] by (simp only: mag_float_one mult_1_right Finite)
  finally show ?thesis by (simp add: Finite)
next
  case (Infinity s)
  then show ?thesis by (simp add: float_one_def)
next
  case NaN
  then show ?thesis by simp
qed

lemma ieee_div_one:
  assumes "is_double a"
  shows "ieee_div a float_one = a"
proof (cases a)
  case (Finite s m e)
  have "ieee_div a float_one = round_mag s (mag (Finite s m e) / mag float_one)"
    by (simp add: Finite float_one_def)
  also have "\<dots> = Finite s m e"
    using assms round_mag_exact [of s m e s] by (simp only: mag_float_one div_by_1 Finite)
  finally show ?thesis by (simp add: Finite)
next
  case (Infinity s)
  then show ?thesis by (simp add: float_one_def)
next
  case NaN
  then show ?thesis by simp
qed

lemma float_add_zero:
  assumes "is_double a"
  shows "float_add a float_zero = (if a = float_neg_zero then float_zero else a)"
proof (cases a)
  case (Finite s m e)
  show ?thesis
  proof (cases "m = 0")
    case True
    with assms Finite have "e = - 1074" by simp
    with True Finite show ?thesis
      by (simp add: float_zero_def float_neg_zero_def)
  next
    case False
    with assms Finite have m: "0 < m" by simp
    then have pos: "(0::rat) < of_int m * 2 powi e" by simp
    have "float_add a float_zero = round_mag s (mag (Finite s m e))"
      using pos False by (cases s) (simp_all add: Finite float_zero_def Let_def)
    also have "\<dots> = a"
      using assms round_mag_exact [of s m e s] by (simp only: Finite)
    finally show ?thesis
      using False by (simp add: Finite float_neg_zero_def)
  qed
next
  case (Infinity s)
  then show ?thesis by (simp add: float_zero_def float_neg_zero_def)
next
  case NaN
  then show ?thesis by (simp add: float_neg_zero_def)
qed

lemma float_eq_add_zero:
  assumes "is_double a" and "a \<noteq> NaN"
  shows "float_eq (float_add a float_zero) a"
proof (cases "a = float_neg_zero")
  case True
  then show ?thesis
    by (simp add: float_add_zero [OF assms(1)]) (simp add: float_zero_def float_neg_zero_def)
next
  case False
  then show ?thesis
    using float_eq_refl [OF assms(2)] by (simp add: float_add_zero [OF assms(1)])
qed

lemma one_not_zero: "\<not> float_eq float_one float_zero"
  by (simp add: float_one_def float_eq_zero_finite)

lemma digit_char_not_point: "digit_char d \<noteq> CHR ''.''"
  by (simp add: digit_char_def)

lemma digits_no_point: "CHR ''.'' \<notin> set (digits n)"
proof (induction n rule: digits.induct)
  case (1 n)
  show ?case
  proof (cases "n < 10")
    case True
    then show ?thesis
      using digit_char_not_point [of n] by (subst digits.simps) auto
  next
    case False
    then show ?thesis
      using 1 digit_char_not_point [of "n mod 10"] by (subst digits.simps) auto
  qed
qed

lemma int_str_no_point: "CHR ''.'' \<notin> set (int_str n)"
  using digits_no_point by (simp add: int_str_def)

section \<open>Facts about the two programs\<close>

lemma repo_result_add: "repo_result ''add'' a b = Inr (float_add a b)"
  by (simp add: repo_result_def parse_args_def ops_def operator_add_def)

lemma repo_result_sub: "repo_result ''sub'' a b = Inr (float_sub a b)"
  by (simp add: repo_result_def parse_args_def ops_def operator_sub_def)

lemma repo_result_mul: "repo_result ''mul'' a b = Inr (float_mul a b)"
  by (simp add: repo_result_def parse_args_def ops_def operator_mul_def)

lemma repo_result_div: "repo_result ''div'' a b = float_truediv a b"
  by (simp add: repo_result_def parse_args_def ops_def operator_truediv_def)

lemma folder_result_add: "folder_result ''add'' a b = Inr (PFloat (float_add a b))"
  by (simp add: folder_result_def add_def)

lemma folder_result_subtract: "folder_result ''subtract'' a b = Inr (PFloat (float_sub a b))"
  by (simp add: folder_result_def subtract_def)

lemma folder_result_multiply: "folder_result ''multiply'' a b = Inr (PFloat (float_mul a b))"
  by (simp add: folder_result_def multiply_def)

lemma folder_result_divide: "folder_result ''divide'' a b = divide_py a b"
  by (simp add: folder_result_def)

lemma divide_cases:
  "divide_py a b = (if float_eq b float_zero then Inr (PStr ''Error: Division by zero'')
                 else Inr (PFloat (ieee_div a b)))"
  by (simp add: divide_py_def float_truediv_def float_eq_zero_iff)

lemma parse_args_names:
  "parse_args name a b = Inr ns \<Longrightarrow> name \<in> {''add'', ''sub'', ''mul'', ''div''}"
  by (auto simp: parse_args_def ops_def split: if_splits)

lemma main_repo_result:
  "main_repo name a b =
     (case repo_result name a b of
        Inl ZeroDivisionError \<Rightarrow>
          Inr \<lparr>out = [], err = [''Error: Division by zero is not allowed.''], status = 1\<rparr>
      | Inl ex \<Rightarrow> Inl ex
      | Inr result \<Rightarrow> print_result result)"
  by (simp add: main_repo_def repo_result_def parse_args_def split: option.splits prod.splits)

lemma print_result_line: "\<exists>line. print_result r = Inr \<lparr>out = [line], err = [], status = 0\<rparr>"
  using float_int_of_integer [of r] by (auto simp: print_result_def)

lemma print_result_integer:
  assumes "float_is_integer r"
  shows "\<exists>n. float_int r = Inr n
           \<and> print_result r = Inr \<lparr>out = [int_str n], err = [], status = 0\<rparr>
           \<and> CHR ''.'' \<notin> set (int_str n)"
proof -
  obtain n where "float_int r = Inr n"
    using float_int_of_integer [OF assms] by blast
  then show ?thesis
    using assms int_str_no_point [of n] by (simp add: print_result_def)
qed

lemma ops_names:
  "name \<in> fst ` set ops \<longleftrightarrow> name = ''add'' \<or> name = ''sub'' \<or> name = ''mul'' \<or> name = ''div''"
  by (simp add: ops_def)

lemma repo_result_cases:
  assumes "name \<in> fst ` set ops"
  shows "repo_result name a b =
     (if name = ''add'' then Inr (float_add a b)
      else if name = ''sub'' then Inr (float_sub a b)
      else if name = ''mul'' then Inr (float_mul a b)
      else float_truediv a b)"
proof -
  from assms consider "name = ''add''" | "name = ''sub''" | "name = ''mul''" | "name = ''div''"
    unfolding ops_names by blast
  then show ?thesis
  proof cases
    case 1
    then show ?thesis by (simp add: repo_result_add)
  next
    case 2
    then show ?thesis by (simp add: repo_result_sub)
  next
    case 3
    then show ?thesis by (simp add: repo_result_mul)
  next
    case 4
    then show ?thesis by (simp add: repo_result_div)
  qed
qed

lemma repo_result_value:
  assumes "name \<in> fst ` set ops" and "name \<noteq> ''div'' \<or> \<not> float_eq b float_zero"
  shows "\<exists>r. repo_result name a b = Inr r"
proof (cases "name = ''div''")
  case True
  with assms(2) show ?thesis
    by (simp add: repo_result_div float_truediv_def)
next
  case False
  with assms(1) have "name = ''add'' \<or> name = ''sub'' \<or> name = ''mul''"
    by (simp add: ops_names)
  then show ?thesis
    by (auto simp: repo_result_add repo_result_sub repo_result_mul)
qed

lemma repo_result_func:
  "parse_args name a b = Inr ns \<Longrightarrow> func ns (arg_a ns) (arg_b ns) = repo_result name a b"
  by (simp add: repo_result_def)

lemma parse_args_ops: "parse_args name a b = Inr ns \<Longrightarrow> name \<in> fst ` set ops"
  using parse_args_names [of name a b ns] by (simp add: ops_names)

lemma parse_args_div:
  "parse_args ''div'' a b =
     Inr \<lparr>operation = ''div'', arg_a = a, arg_b = b, func = operator_truediv\<rparr>"
  by (simp add: parse_args_def ops_def)

lemma div_in_ops: "''div'' \<in> fst ` set ops"
  by (simp add: ops_names)

lemma choices_names:
  "opn \<in> set choices \<longleftrightarrow>
     opn = ''add'' \<or> opn = ''subtract'' \<or> opn = ''multiply'' \<or> opn = ''divide''"
  by (simp add: choices_def)

lemma add_in_choices: "''add'' \<in> set choices"
  by (simp add: choices_names)

lemma divide_in_choices: "''divide'' \<in> set choices"
  by (simp add: choices_names)

lemma folder_result_float:
  assumes "opn \<in> set choices"
  shows "\<exists>v. folder_result opn a b = Inr v"
proof -
  from assms consider "opn = ''add''" | "opn = ''subtract''" | "opn = ''multiply''"
    | "opn = ''divide''"
    unfolding choices_names by blast
  then show ?thesis
  proof cases
    case 1
    then show ?thesis by (simp add: folder_result_add)
  next
    case 2
    then show ?thesis by (simp add: folder_result_subtract)
  next
    case 3
    then show ?thesis by (simp add: folder_result_multiply)
  next
    case 4
    then show ?thesis by (simp add: folder_result_divide divide_cases)
  qed
qed

lemma main_folder_line:
  assumes "opn \<in> set choices"
  shows "\<exists>line. main_folder opn a b = Inr \<lparr>out = [line], err = [], status = 0\<rparr>"
  using folder_result_float [OF assms, of a b] assms by (auto simp: main_folder_def)

lemma main_folder_float:
  assumes "opn \<in> set choices" and "folder_result opn a b = Inr (PFloat r)"
  shows "main_folder opn a b = Inr \<lparr>out = [''Result: '' @ float_repr r], err = [], status = 0\<rparr>"
  using assms by (simp add: main_folder_def)

section \<open>The operands of the examples\<close>

lemma float_of_rat_4: "float_of_rat 4 = Finite False 4503599627370496 (- 50)"
  by code_simp

lemma float_of_rat_10: "float_of_rat 10 = Finite False 5629499534213120 (- 49)"
  by code_simp

lemma float_of_rat_5_2: "float_of_rat (5 / 2) = Finite False 5629499534213120 (- 51)"
  by code_simp

lemma ten_by_four: "ieee_div (float_of_rat 10) (float_of_rat 4) = float_of_rat (5 / 2)"
  unfolding float_of_rat_4 float_of_rat_10 float_of_rat_5_2 by code_simp

lemma four_not_zero: "\<not> float_eq (float_of_rat 4) float_zero"
  by (simp add: float_of_rat_4 float_eq_zero_finite)

lemma float_of_rat_2: "float_of_rat 2 = Finite False 4503599627370496 (- 51)"
  by code_simp

lemma float_of_rat_3: "float_of_rat 3 = Finite False 6755399441055744 (- 51)"
  by code_simp

lemma float_of_rat_5: "float_of_rat 5 = Finite False 5629499534213120 (- 50)"
  by code_simp

lemma two_plus_three: "float_add (float_of_rat 2) (float_of_rat 3) = float_of_rat 5"
  unfolding float_of_rat_2 float_of_rat_3 float_of_rat_5 by code_simp

lemma five_is_integer: "float_is_integer (float_of_rat 5)"
  unfolding float_of_rat_5 by code_simp

lemma int_of_five: "float_int (float_of_rat 5) = Inr 5"
  unfolding float_of_rat_5 by code_simp

lemma int_str_5: "int_str 5 = ''5''"
  by code_simp

lemma repr_five: "float_repr (float_of_rat 5) = ''5.0''"
  unfolding float_of_rat_5 by code_simp

lemma repr_five_halves: "float_repr (float_of_rat (5 / 2)) = ''2.5''"
  unfolding float_of_rat_5_2 by code_simp

lemma five_halves_not_integer: "\<not> float_is_integer (float_of_rat (5 / 2))"
  unfolding float_of_rat_5_2 by code_simp

lemma five_not_zero: "\<not> float_eq (float_of_rat 5) float_zero"
  by (simp add: float_of_rat_5 float_eq_zero_finite)

lemma is_double_five: "is_double (float_of_rat 5)"
  by (simp add: float_of_rat_5)

lemma five_not_neg_zero: "float_of_rat 5 \<noteq> float_neg_zero"
  by (simp add: float_of_rat_5 float_neg_zero_def)

lemma repr_zeros: "float_repr float_zero = ''0.0''" "float_repr float_neg_zero = ''-0.0''"
  by (simp_all add: float_zero_def float_neg_zero_def)

lemma one_by_tiny: "ieee_div float_one (Finite False 1 (- 1074)) = Infinity False"
proof -
  have "mag float_one / mag (Finite False 1 (- 1074)) = 2 ^ 1074"
    by (simp add: mag_float_one power_int_minus)
  moreover have "round_mag False (2 ^ 1074) = Infinity False"
    by (rule round_mag_overflow) simp
  ultimately show ?thesis
    by (simp add: float_one_def)
qed

lemma tiny_not_zero: "\<not> float_eq (Finite False 1 (- 1074)) float_zero"
  by (simp add: float_eq_zero_finite)

lemma three_by_two: "float_mul (float_of_rat 2) (float_of_rat 3) = Finite False 6755399441055744 (- 50)"
  unfolding float_of_rat_2 float_of_rat_3 by code_simp

section \<open>The claims\<close>

text \<open>
  C1 (amended). In test\_repo the division raises \<^verbatim>\<open>ZeroDivisionError\<close> exactly when the
  second operand equals zero (\<^verbatim>\<open>0.0\<close> or \<^verbatim>\<open>-0.0\<close>, by \<^verbatim>\<open>==\<close>), whatever the first operand
  is. In test\_folder \<^verbatim>\<open>divide\<close> raises nothing for such an operand: it returns the string
  \<^verbatim>\<open>Error: Division by zero\<close> as its value, exactly when the second operand equals zero.
\<close>

theorem division_by_zero_results:
  "(repo_result ''div'' a b = Inl ZeroDivisionError) = float_eq b float_zero
   \<and> (folder_result ''divide'' a b = Inr (PStr ''Error: Division by zero'')) = float_eq b float_zero
   \<and> folder_result ''divide'' a b \<noteq> Inl ZeroDivisionError"
  by (simp add: repo_result_div folder_result_divide divide_cases float_truediv_def)

text \<open>
  C1 as stated fails for test\_folder: dividing 5 by 0.0 there gives a value, the string,
  and no error.
\<close>

theorem folder_divide_by_zero_counterexample:
  "folder_result ''divide'' (float_of_rat 5) float_zero = Inr (PStr ''Error: Division by zero'')
   \<and> folder_result ''divide'' (float_of_rat 5) float_zero \<noteq> Inl ZeroDivisionError"
  by (simp add: folder_result_divide divide_cases float_eq_zero_zero)

text \<open>
  C2. In both programs addition, subtraction and multiplication return the float sum,
  difference and product of the operands: for all floats, the finite ones among them.
\<close>

theorem arithmetic_results:
  "repo_result ''add'' a b = Inr (float_add a b)
   \<and> repo_result ''sub'' a b = Inr (float_sub a b)
   \<and> repo_result ''mul'' a b = Inr (float_mul a b)
   \<and> folder_result ''add'' a b = Inr (PFloat (float_add a b))
   \<and> folder_result ''subtract'' a b = Inr (PFloat (float_sub a b))
   \<and> folder_result ''multiply'' a b = Inr (PFloat (float_mul a b))"
  by (simp add: repo_result_add repo_result_sub repo_result_mul
      folder_result_add folder_result_subtract folder_result_multiply)

text \<open>
  C3. When the second operand does not equal zero, division returns the IEEE quotient in
  both programs, as a value and not as an error, also when the quotient is an infinity.
\<close>

theorem divide_nonzero_result:
  "\<not> float_eq b float_zero \<Longrightarrow>
     repo_result ''div'' a b = Inr (ieee_div a b)
     \<and> folder_result ''divide'' a b = Inr (PFloat (ieee_div a b))"
  by (simp add: repo_result_div folder_result_divide divide_cases float_truediv_def)

theorem divide_nonzero_result_witness:
  "\<not> float_eq (float_of_rat 4) float_zero
   \<and> repo_result ''div'' (float_of_rat 10) (float_of_rat 4) = Inr (float_of_rat (5 / 2))
   \<and> folder_result ''divide'' (float_of_rat 10) (float_of_rat 4) = Inr (PFloat (float_of_rat (5 / 2)))
   \<and> \<not> float_eq (Finite False 1 (- 1074)) float_zero
   \<and> repo_result ''div'' float_one (Finite False 1 (- 1074)) = Inr (Infinity False)
   \<and> folder_result ''divide'' float_one (Finite False 1 (- 1074)) = Inr (PFloat (Infinity False))"
  using divide_nonzero_result [OF four_not_zero, of "float_of_rat 10"] four_not_zero
    divide_nonzero_result [OF tiny_not_zero, of float_one] tiny_not_zero
  by (simp only: ten_by_four one_by_tiny simp_thms)

text \<open>
  C4 (amended). In test\_repo, for each of the four subcommands and all operands: when the
  subcommand is \<^verbatim>\<open>div\<close> and the second operand equals zero, the run prints the one line
  \<^verbatim>\<open>Error: Division by zero is not allowed.\<close> on standard error, nothing on standard output,
  and exits with 1; otherwise it prints one line on standard output, nothing on standard
  error, and exits with 0. In test\_folder, for each of the four operations and all operands,
  the run prints one line on standard output, nothing on standard error, and exits with 0.
\<close>

theorem run_outcomes:
  "(name \<in> fst ` set ops \<longrightarrow>
      (if name = ''div'' \<and> float_eq b float_zero
       then main_repo name a b =
              Inr \<lparr>out = [], err = [''Error: Division by zero is not allowed.''], status = 1\<rparr>
       else \<exists>line. main_repo name a b = Inr \<lparr>out = [line], err = [], status = 0\<rparr>))
   \<and> (opn \<in> set choices \<longrightarrow>
        (\<exists>line. main_folder opn a b = Inr \<lparr>out = [line], err = [], status = 0\<rparr>))"
proof (intro conjI impI)
  assume ops: "name \<in> fst ` set ops"
  show "if name = ''div'' \<and> float_eq b float_zero
        then main_repo name a b =
               Inr \<lparr>out = [], err = [''Error: Division by zero is not allowed.''], status = 1\<rparr>
        else \<exists>line. main_repo name a b = Inr \<lparr>out = [line], err = [], status = 0\<rparr>"
  proof (cases "name = ''div'' \<and> float_eq b float_zero")
    case True
    then show ?thesis
      by (simp add: main_repo_result repo_result_div float_truediv_def)
  next
    case False
    then obtain r where "repo_result name a b = Inr r"
      using repo_result_value [OF ops, of b a] by blast
    then have "\<exists>line. main_repo name a b = Inr \<lparr>out = [line], err = [], status = 0\<rparr>"
      using print_result_line [of r] by (simp add: main_repo_result)
    then show ?thesis
      by (simp only: if_not_P [OF False])
  qed
next
  assume "opn \<in> set choices"
  then show "\<exists>line. main_folder opn a b = Inr \<lparr>out = [line], err = [], status = 0\<rparr>"
    by (rule main_folder_line)
qed

theorem run_outcomes_witness:
  "''div'' \<in> fst ` set ops
   \<and> float_eq float_zero float_zero
   \<and> main_repo ''div'' (float_of_rat 5) float_zero =
       Inr \<lparr>out = [], err = [''Error: Division by zero is not allowed.''], status = 1\<rparr>
   \<and> ''divide'' \<in> set choices
   \<and> (\<exists>line. main_folder ''divide'' (float_of_rat 5) float_zero =
         Inr \<lparr>out = [line], err = [], status = 0\<rparr>)"
  using run_outcomes [of "''div''" float_zero "float_of_rat 5" "''divide''"]
    div_in_ops divide_in_choices float_eq_zero_zero
  by simp

text \<open>
  C4 as stated fails for test\_folder: dividing 5 by 0 there prints the sentinel on standard
  output, prints nothing on standard error, and the exit status is 0.
\<close>

theorem folder_division_by_zero_run_counterexample:
  "main_folder ''divide'' (float_of_rat 5) float_zero =
     Inr \<lparr>out = [''Result: Error: Division by zero''], err = [], status = 0\<rparr>"
  by (simp add: main_folder_def choices_def folder_result_divide divide_cases float_eq_zero_zero)

text \<open>
  C5 (amended). In test\_repo, whatever the subcommand: a result that is an integer (finite,
  with no fractional part) is printed as the decimal digits of \<^verbatim>\<open>int(result)\<close>, which contain
  no decimal point; any other result is printed as Python prints a float (\<^verbatim>\<open>repr\<close>). In
  test\_folder there is no such rule: whatever the operation, a float result \<open>r\<close> is printed
  as \<^verbatim>\<open>Result: \<close> followed by \<^verbatim>\<open>repr(r)\<close>.
\<close>

theorem result_rendering:
  "(repo_result name a b = Inr r \<longrightarrow>
      (if float_is_integer r
       then \<exists>n. float_int r = Inr n
              \<and> main_repo name a b = Inr \<lparr>out = [int_str n], err = [], status = 0\<rparr>
              \<and> CHR ''.'' \<notin> set (int_str n)
       else main_repo name a b = Inr \<lparr>out = [float_repr r], err = [], status = 0\<rparr>))
   \<and> (opn \<in> set choices \<and> folder_result opn a' b' = Inr (PFloat r') \<longrightarrow>
        main_folder opn a' b' =
          Inr \<lparr>out = [''Result: '' @ float_repr r'], err = [], status = 0\<rparr>)"
proof (intro conjI impI)
  assume r: "repo_result name a b = Inr r"
  show "if float_is_integer r
        then \<exists>n. float_int r = Inr n
               \<and> main_repo name a b = Inr \<lparr>out = [int_str n], err = [], status = 0\<rparr>
               \<and> CHR ''.'' \<notin> set (int_str n)
        else main_repo name a b = Inr \<lparr>out = [float_repr r], err = [], status = 0\<rparr>"
  proof (cases "float_is_integer r")
    case True
    then show ?thesis
      using print_result_integer [OF True] r by (simp add: main_repo_result)
  next
    case False
    then show ?thesis
      using r by (simp add: main_repo_result print_result_def)
  qed
next
  assume "opn \<in> set choices \<and> folder_result opn a' b' = Inr (PFloat r')"
  then show "main_folder opn a' b' =
      Inr \<lparr>out = [''Result: '' @ float_repr r'], err = [], status = 0\<rparr>"
    by (simp add: main_folder_float)
qed

theorem result_rendering_witness:
  "repo_result ''add'' (float_of_rat 2) (float_of_rat 3) = Inr (float_of_rat 5)
   \<and> float_is_integer (float_of_rat 5)
   \<and> main_repo ''add'' (float_of_rat 2) (float_of_rat 3) =
       Inr \<lparr>out = [''5''], err = [], status = 0\<rparr>
   \<and> repo_result ''div'' (float_of_rat 10) (float_of_rat 4) = Inr (float_of_rat (5 / 2))
   \<and> \<not> float_is_integer (float_of_rat (5 / 2))
   \<and> main_repo ''div'' (float_of_rat 10) (float_of_rat 4) =
       Inr \<lparr>out = [''2.5''], err = [], status = 0\<rparr>
   \<and> ''add'' \<in> set choices
   \<and> folder_result ''add'' (float_of_rat 2) (float_of_rat 3) = Inr (PFloat (float_of_rat 5))
   \<and> main_folder ''add'' (float_of_rat 2) (float_of_rat 3) =
       Inr \<lparr>out = [''Result: 5.0''], err = [], status = 0\<rparr>"
proof -
  have add: "repo_result ''add'' (float_of_rat 2) (float_of_rat 3) = Inr (float_of_rat 5)"
    by (simp add: repo_result_add two_plus_three)
  have dv: "repo_result ''div'' (float_of_rat 10) (float_of_rat 4) = Inr (float_of_rat (5 / 2))"
    using four_not_zero by (simp add: repo_result_div float_truediv_def ten_by_four)
  have fadd: "folder_result ''add'' (float_of_rat 2) (float_of_rat 3) = Inr (PFloat (float_of_rat 5))"
    by (simp add: folder_result_add two_plus_three)
  have 1: "main_repo ''add'' (float_of_rat 2) (float_of_rat 3) =
       Inr \<lparr>out = [''5''], err = [], status = 0\<rparr>"
    using result_rendering [of "''add''" "float_of_rat 2" "float_of_rat 3" "float_of_rat 5"]
      add five_is_integer int_of_five
    by (simp add: int_str_5)
  have 2: "main_folder ''add'' (float_of_rat 2) (float_of_rat 3) =
       Inr \<lparr>out = [''Result: 5.0''], err = [], status = 0\<rparr>"
    using result_rendering [of _ _ _ _ "''add''" "float_of_rat 2" "float_of_rat 3" "float_of_rat 5"]
      fadd add_in_choices
    by (simp add: repr_five)
  have 3: "main_repo ''div'' (float_of_rat 10) (float_of_rat 4) =
       Inr \<lparr>out = [''2.5''], err = [], status = 0\<rparr>"
    using result_rendering [of "''div''" "float_of_rat 10" "float_of_rat 4" "float_of_rat (5 / 2)"]
      dv five_halves_not_integer
    by (simp add: repr_five_halves)
  show ?thesis
    using add dv fadd 1 2 3 five_is_integer five_halves_not_integer add_in_choices
    by (simp only: simp_thms)
qed

text \<open>
  C5 as stated fails for test\_folder: the sum of 2 and 3 has no fractional part, and the
  line printed is \<^verbatim>\<open>Result: 5.0\<close>, with a decimal point.
\<close>

theorem folder_rendering_counterexample:
  "main_folder ''add'' (float_of_rat 2) (float_of_rat 3) =
     Inr \<lparr>out = [''Result: 5.0''], err = [], status = 0\<rparr>
   \<and> float_is_integer (float_add (float_of_rat 2) (float_of_rat 3))
   \<and> CHR ''.'' \<in> set ''Result: 5.0''"
  using add_in_choices five_is_integer
  by (simp add: main_folder_def folder_result_add two_plus_three repr_five)

text \<open>
  C6. The functions of the two programs agree: \<^verbatim>\<open>add\<close>, \<^verbatim>\<open>subtract\<close> and \<^verbatim>\<open>multiply\<close> of
  test\_folder return what \<^verbatim>\<open>operator.add\<close>, \<^verbatim>\<open>operator.sub\<close> and \<^verbatim>\<open>operator.mul\<close> return
  in test\_repo, for all floats, and when the second operand does not equal zero
  \<^verbatim>\<open>divide\<close> and \<^verbatim>\<open>operator.truediv\<close> both return the quotient.
\<close>

theorem variants_agree:
  "operator_add a b = Inr (add a b)
   \<and> operator_sub a b = Inr (subtract a b)
   \<and> operator_mul a b = Inr (multiply a b)
   \<and> (\<not> float_eq b float_zero \<longrightarrow>
        operator_truediv a b = Inr (ieee_div a b) \<and> divide_py a b = Inr (PFloat (ieee_div a b)))"
  by (simp add: operator_add_def operator_sub_def operator_mul_def operator_truediv_def
      add_def subtract_def multiply_def divide_cases float_truediv_def)

theorem variants_agree_witness:
  "operator_add (float_of_rat 10) (float_of_rat 4) = Inr (add (float_of_rat 10) (float_of_rat 4))
   \<and> operator_sub (float_of_rat 10) (float_of_rat 4) = Inr (subtract (float_of_rat 10) (float_of_rat 4))
   \<and> operator_mul (float_of_rat 10) (float_of_rat 4) = Inr (multiply (float_of_rat 10) (float_of_rat 4))
   \<and> \<not> float_eq (float_of_rat 4) float_zero
   \<and> operator_truediv (float_of_rat 10) (float_of_rat 4) = Inr (float_of_rat (5 / 2))
   \<and> divide_py (float_of_rat 10) (float_of_rat 4) = Inr (PFloat (float_of_rat (5 / 2)))"
  using variants_agree [of "float_of_rat 10" "float_of_rat 4"] four_not_zero
  by (simp only: ten_by_four simp_thms)

text \<open>
  C7. Addition and multiplication are commutative in both programs: exchanging the operands
  gives the same result, for all floats. The two results are the same float; they also
  compare equal with \<^verbatim>\<open>==\<close>, except when the result is NaN, which compares equal to nothing.
\<close>

theorem add_multiply_commute:
  "repo_result ''add'' a b = repo_result ''add'' b a
   \<and> repo_result ''mul'' a b = repo_result ''mul'' b a
   \<and> folder_result ''add'' a b = folder_result ''add'' b a
   \<and> folder_result ''multiply'' a b = folder_result ''multiply'' b a
   \<and> (float_add a b \<noteq> NaN \<longrightarrow> float_eq (float_add a b) (float_add b a))
   \<and> (float_mul a b \<noteq> NaN \<longrightarrow> float_eq (float_mul a b) (float_mul b a))"
  using float_eq_refl [of "float_add a b"] float_eq_refl [of "float_mul a b"]
  by (simp add: repo_result_add repo_result_mul folder_result_add folder_result_multiply
      float_add_commute [of a b] float_mul_commute [of a b])

theorem add_multiply_commute_witness:
  "repo_result ''add'' (float_of_rat 2) (float_of_rat 3) = Inr (float_of_rat 5)
   \<and> repo_result ''add'' (float_of_rat 3) (float_of_rat 2) = Inr (float_of_rat 5)
   \<and> float_add (float_of_rat 2) (float_of_rat 3) \<noteq> NaN
   \<and> float_eq (float_add (float_of_rat 2) (float_of_rat 3)) (float_add (float_of_rat 3) (float_of_rat 2))
   \<and> float_mul (float_of_rat 2) (float_of_rat 3) \<noteq> NaN
   \<and> float_eq (float_mul (float_of_rat 2) (float_of_rat 3)) (float_mul (float_of_rat 3) (float_of_rat 2))"
proof -
  have 1: "float_add (float_of_rat 2) (float_of_rat 3) \<noteq> NaN"
    by (simp add: two_plus_three float_of_rat_5)
  have 2: "float_mul (float_of_rat 2) (float_of_rat 3) \<noteq> NaN"
    by (simp add: three_by_two)
  have 3: "repo_result ''add'' (float_of_rat 2) (float_of_rat 3) = Inr (float_of_rat 5)"
    by (simp add: repo_result_add two_plus_three)
  show ?thesis
    using add_multiply_commute [of "float_of_rat 2" "float_of_rat 3"] 1 2 3
    by simp
qed

text \<open>
  C8 (amended). For every double \<open>a\<close>, in both programs: multiplying \<open>a\<close> by 1 and dividing
  \<open>a\<close> by 1 return \<open>a\<close> itself; adding 0 to \<open>a\<close> returns \<open>a\<close> itself unless \<open>a\<close> is \<^verbatim>\<open>-0.0\<close>,
  where the sum is \<^verbatim>\<open>0.0\<close>; and unless \<open>a\<close> is NaN the sum compares equal (\<^verbatim>\<open>==\<close>) to \<open>a\<close>.
\<close>

theorem identity_operands:
  assumes "is_double a"
  shows "repo_result ''mul'' a float_one = Inr a
     \<and> repo_result ''div'' a float_one = Inr a
     \<and> repo_result ''add'' a float_zero = Inr (if a = float_neg_zero then float_zero else a)
     \<and> folder_result ''multiply'' a float_one = Inr (PFloat a)
     \<and> folder_result ''divide'' a float_one = Inr (PFloat a)
     \<and> folder_result ''add'' a float_zero =
         Inr (PFloat (if a = float_neg_zero then float_zero else a))
     \<and> (a \<noteq> NaN \<longrightarrow> float_eq (float_add a float_zero) a)"
  using float_eq_add_zero [OF assms] one_not_zero
  by (simp add: repo_result_mul repo_result_div repo_result_add folder_result_multiply
      folder_result_divide folder_result_add divide_cases float_truediv_def
      float_mul_one [OF assms] ieee_div_one [OF assms] float_add_zero [OF assms])

theorem identity_operands_witness:
  "is_double (float_of_rat 5)
   \<and> repo_result ''mul'' (float_of_rat 5) float_one = Inr (float_of_rat 5)
   \<and> repo_result ''div'' (float_of_rat 5) float_one = Inr (float_of_rat 5)
   \<and> repo_result ''add'' (float_of_rat 5) float_zero = Inr (float_of_rat 5)
   \<and> folder_result ''multiply'' (float_of_rat 5) float_one = Inr (PFloat (float_of_rat 5))
   \<and> folder_result ''divide'' (float_of_rat 5) float_one = Inr (PFloat (float_of_rat 5))
   \<and> folder_result ''add'' (float_of_rat 5) float_zero = Inr (PFloat (float_of_rat 5))
   \<and> float_of_rat 5 \<noteq> NaN
   \<and> float_eq (float_add (float_of_rat 5) float_zero) (float_of_rat 5)"
proof -
  have "float_of_rat 5 \<noteq> NaN" by (simp add: float_of_rat_5)
  then show ?thesis
    using identity_operands [OF is_double_five] is_double_five five_not_neg_zero
    by (simp only: if_False simp_thms)
qed

text \<open>
  C8 as stated fails at two operands. Adding 0 to \<^verbatim>\<open>-0.0\<close> gives \<^verbatim>\<open>0.0\<close>, another float
  than the operand (they print differently); and adding 0 to NaN gives NaN, which does not
  compare equal to the operand.
\<close>

theorem identity_counterexample:
  "repo_result ''add'' float_neg_zero float_zero = Inr float_zero
   \<and> float_zero \<noteq> float_neg_zero
   \<and> float_repr float_zero = ''0.0''
   \<and> float_repr float_neg_zero = ''-0.0''
   \<and> repo_result ''add'' NaN float_zero = Inr NaN
   \<and> \<not> float_eq NaN NaN"
  by (simp add: repo_result_add repr_zeros) (simp add: float_zero_def float_neg_zero_def)

text \<open>
  C10. In test\_repo, when the arguments parse and the subcommand is not \<^verbatim>\<open>div\<close> or the
  second operand does not equal zero, \<^verbatim>\<open>args.func(args.a, args.b)\<close> does not raise
  \<^verbatim>\<open>ZeroDivisionError\<close>: it returns a float, \<^verbatim>\<open>main\<close> prints one line on standard
  output, nothing on standard error, and returns 0.
\<close>

theorem no_zero_division_returns_0:
  assumes "parse_args name a b = Inr ns"
    and "name \<noteq> ''div'' \<or> \<not> float_eq b float_zero"
  shows "(\<exists>r. func ns (arg_a ns) (arg_b ns) = Inr r)
         \<and> func ns (arg_a ns) (arg_b ns) \<noteq> Inl ZeroDivisionError
         \<and> (\<exists>line. main_repo name a b = Inr \<lparr>out = [line], err = [], status = 0\<rparr>)"
proof -
  obtain r where r: "repo_result name a b = Inr r"
    using repo_result_value [OF parse_args_ops [OF assms(1)] assms(2)] by blast
  then have "func ns (arg_a ns) (arg_b ns) = Inr r"
    by (simp add: repo_result_func [OF assms(1)])
  moreover have "\<exists>line. main_repo name a b = Inr \<lparr>out = [line], err = [], status = 0\<rparr>"
    using r print_result_line [of r] by (simp add: main_repo_result)
  ultimately show ?thesis by simp
qed

theorem no_zero_division_returns_0_witness:
  "parse_args ''div'' (float_of_rat 10) (float_of_rat 4) =
     Inr \<lparr>operation = ''div'', arg_a = float_of_rat 10, arg_b = float_of_rat 4,
          func = operator_truediv\<rparr>
   \<and> \<not> float_eq (float_of_rat 4) float_zero
   \<and> (\<exists>r. operator_truediv (float_of_rat 10) (float_of_rat 4) = Inr r)
   \<and> operator_truediv (float_of_rat 10) (float_of_rat 4) \<noteq> Inl ZeroDivisionError
   \<and> (\<exists>line. main_repo ''div'' (float_of_rat 10) (float_of_rat 4) =
         Inr \<lparr>out = [line], err = [], status = 0\<rparr>)"
  using no_zero_division_returns_0 [OF parse_args_div, of "float_of_rat 4" "float_of_rat 10"]
    four_not_zero parse_args_div [of "float_of_rat 10" "float_of_rat 4"]
  by simp

end
